theory Spec2Isabelle
  imports Complex_Main
begin

section \<open>JavaScript numbers\<close>

text \<open>
  A JavaScript number is modelled as either \<open>NaN\<close> or a finite value. Arithmetic on
  finite values is exact arithmetic on the reals, except in the scoring engine in rounded
  arithmetic below, which takes the rounding of each operation as a parameter; overflow
  and the two infinities are outside the model. Every operator propagates \<open>NaN\<close>, as JavaScript's
  \<^verbatim>\<open>+ - * /\<close>, \<^verbatim>\<open>Math.min\<close>, \<^verbatim>\<open>Math.max\<close> and \<^verbatim>\<open>Math.round\<close> do. Every division in the
  program has a non-zero literal as its divisor.
\<close>

datatype jsnum = NaN | Num real

fun js_lift2 :: "(real \<Rightarrow> real \<Rightarrow> real) \<Rightarrow> jsnum \<Rightarrow> jsnum \<Rightarrow> jsnum" where
  "js_lift2 f (Num x) (Num y) = Num (f x y)"
| "js_lift2 f _ _ = NaN"

definition js_add :: "jsnum \<Rightarrow> jsnum \<Rightarrow> jsnum" where
  "js_add = js_lift2 (\<lambda>x y. x + y)"

definition js_sub :: "jsnum \<Rightarrow> jsnum \<Rightarrow> jsnum" where
  "js_sub = js_lift2 (\<lambda>x y. x - y)"

definition js_mul :: "jsnum \<Rightarrow> jsnum \<Rightarrow> jsnum" where
  "js_mul = js_lift2 (\<lambda>x y. x * y)"

definition js_div :: "jsnum \<Rightarrow> jsnum \<Rightarrow> jsnum" where
  "js_div = js_lift2 (\<lambda>x y. x / y)"

definition Math_min :: "jsnum \<Rightarrow> jsnum \<Rightarrow> jsnum" where
  "Math_min = js_lift2 min"

definition Math_max :: "jsnum \<Rightarrow> jsnum \<Rightarrow> jsnum" where
  "Math_max = js_lift2 max"

text \<open>\<^verbatim>\<open>Math.round\<close> rounds to the nearest integer, a half towards plus infinity.\<close>

definition round_half_up :: "real \<Rightarrow> real" where
  "round_half_up x = of_int \<lfloor>x + 1 / 2\<rfloor>"

fun Math_round :: "jsnum \<Rightarrow> jsnum" where
  "Math_round NaN = NaN"
| "Math_round (Num x) = Num (round_half_up x)"

text \<open>Comparison with a number: false whenever an operand is \<open>NaN\<close>.\<close>

fun js_gt :: "jsnum \<Rightarrow> real \<Rightarrow> bool" where
  "js_gt NaN c = False"
| "js_gt (Num x) c = (x > c)"

fun js_ge :: "jsnum \<Rightarrow> real \<Rightarrow> bool" where
  "js_ge NaN c = False"
| "js_ge (Num x) c = (x \<ge> c)"

fun js_le :: "jsnum \<Rightarrow> real \<Rightarrow> bool" where
  "js_le NaN c = False"
| "js_le (Num x) c = (x \<le> c)"

text \<open>
  A property of an object read by the program: absent (\<^verbatim>\<open>undefined\<close>) or a number.
  \<open>ToNumber\<close> is the conversion the arithmetic operators apply to an operand.
\<close>

datatype jsval = Undefined | Number jsnum

fun ToNumber :: "jsval \<Rightarrow> jsnum" where
  "ToNumber Undefined = NaN"
| "ToNumber (Number n) = n"


section \<open>Environment: the clock and the random source\<close>

text \<open>
  \<^verbatim>\<open>Date\<close> and \<^verbatim>\<open>Math.random\<close> are inputs of the model. \<open>random k\<close> is the value of
  the \<open>k\<close>-th call of \<^verbatim>\<open>Math.random()\<close>; functions that draw random numbers take the
  number of draws made so far and return the new count. \<open>now_ms k\<close> is the current time
  in milliseconds since the epoch as read when \<open>k\<close> draws have been made (the program
  reads the clock at most once between two draws), \<open>getHours\<close> the local hour of day of
  a time and \<open>toISOString\<close> its ISO rendering.
\<close>

record env =
  now_ms :: "nat \<Rightarrow> int"
  getHours :: "int \<Rightarrow> int"
  toISOString :: "int \<Rightarrow> string"
  random :: "nat \<Rightarrow> real"


section \<open>Fallback anomaly detection (server: fallbackAnomalyDetection)\<close>

text \<open>
  The reading is an untyped object: each property may be absent or \<open>NaN\<close>. A comparison
  converts its operand with \<open>ToNumber\<close> and is false on \<open>NaN\<close>.
\<close>

record reading =
  noise :: jsval
  temperature :: jsval
  air_quality :: jsval
  crowd_density :: jsval
  stress_index :: jsval

text \<open>
  The returned object. The early return \<^verbatim>\<open>{ is_anomaly: false }\<close> has no other
  property: an absent property is \<open>None\<close>.
\<close>

record detection =
  is_anomaly :: bool
  anomaly_score :: "jsnum option"
  signals :: "string list option"
  explanation :: "string option"

text \<open>
  \<open>str\<close> is the rendering of a value inside a template literal; the properties below
  hold for every rendering.
\<close>

definition fallbackAnomalyDetection :: "(jsval \<Rightarrow> string) \<Rightarrow> reading \<Rightarrow> detection" where
  "fallbackAnomalyDetection str r =
     (let signals0 = [];
          signals1 = (if js_gt (ToNumber (reading.noise r)) 85
                      then signals0 @ [''noise''] else signals0);
          signals2 = (if js_gt (ToNumber (temperature r)) 35
                      then signals1 @ [''heat''] else signals1);
          signals3 = (if js_gt (ToNumber (air_quality r)) 120
                      then signals2 @ [''air_quality''] else signals2);
          signals4 = (if js_gt (ToNumber (crowd_density r)) 25
                      then signals3 @ [''crowd''] else signals3)
      in if length signals4 = 0 \<and> js_le (ToNumber (stress_index r)) 80
         then \<lparr>is_anomaly = False, anomaly_score = None, signals = None, explanation = None\<rparr>
         else
           (let (explanation1, signals5) =
              (if ''noise'' \<in> set signals4
               then (''Noise level '' @ str (reading.noise r)
                       @ '' dB exceeds Mohali evening baseline'', signals4)
               else if ''heat'' \<in> set signals4
               then (''Temperature '' @ str (temperature r) @ ''C indicates heat stress'',
                     signals4)
               else if ''air_quality'' \<in> set signals4
               then (''AQI '' @ str (air_quality r) @ '' above safe threshold'', signals4)
               else if js_gt (ToNumber (stress_index r)) 80
               then (''Multi-sensor correlation indicates urban stress anomaly'',
                     signals4 @ [''composite''])
               else ([], signals4))
            in \<lparr>is_anomaly = (js_gt (ToNumber (stress_index r)) 80 \<or> length signals5 > 0),
                anomaly_score =
                  Some (Math_min (js_div (ToNumber (stress_index r)) (Num 100))
                          (Num (99 / 100))),
                signals = Some signals5,
                explanation = Some explanation1\<rparr>))"

text \<open>The tags of a returned object as a set: empty when the property is absent.\<close>

definition signal_set :: "detection \<Rightarrow> string set" where
  "signal_set d = (case signals d of None \<Rightarrow> {} | Some xs \<Rightarrow> set xs)"

text \<open>The per-signal thresholds, in the specification's words.\<close>

definition fired_tags :: "reading \<Rightarrow> string set" where
  "fired_tags r =
     (if js_gt (ToNumber (reading.noise r)) 85 then {''noise''} else {}) \<union>
     (if js_gt (ToNumber (temperature r)) 35 then {''heat''} else {}) \<union>
     (if js_gt (ToNumber (air_quality r)) 120 then {''air_quality''} else {}) \<union>
     (if js_gt (ToNumber (crowd_density r)) 25 then {''crowd''} else {})"


section \<open>Fallback forecast (server: fallbackForecast)\<close>

record forecast_point =
  timestamp :: string
  minutes_ahead :: int
  predicted_stress :: real
  predicted_noise :: real
  predicted_temp :: real
  predicted_aqi :: real
  predicted_crowd :: real
  confidence :: real

text \<open>
  The state of the \<^verbatim>\<open>for\<close> loop: the counter \<open>i\<close>, \<open>prevStress\<close>, the number of random
  draws made, and the \<open>forecast\<close> array. \<open>forecast_body\<close> is one iteration; \<open>now\<close> is
  the time read before the loop.
\<close>

type_synonym loop_state = "int \<times> real \<times> nat \<times> forecast_point list"

definition forecast_body :: "env \<Rightarrow> int \<Rightarrow> loop_state \<Rightarrow> loop_state" where
  "forecast_body e now st =
     (case st of (i, prevStress, k, forecast) \<Rightarrow>
        (let futureTime = now + i * 60 * 1000;
             hour = getHours e futureTime;
             baseFactor0 = (if hour \<ge> 8 \<and> hour \<le> 20 then 12 / 10 else 8 / 10);
             baseFactor = (if hour \<ge> 17 \<and> hour \<le> 19 then 14 / 10 else baseFactor0);
             stress = round_half_up
               (prevStress * (7 / 10) + (45 * baseFactor) * (3 / 10)
                + (random e k - 1 / 2) * 5);
             point =
               \<lparr>timestamp = toISOString e futureTime,
                minutes_ahead = i,
                predicted_stress = max 20 (min 85 stress),
                predicted_noise = round_half_up (55 + stress * (3 / 10)),
                predicted_temp = round_half_up (25 + random e (k + 1) * 5),
                predicted_aqi = round_half_up (60 + stress * (4 / 10)),
                predicted_crowd = round_half_up (5 + stress * (15 / 100)),
                confidence = max (65 / 100) (9 / 10 - (of_int i * (3 / 1000)))\<rparr>
         in (i + 15, stress, k + 2, forecast @ [point])))"

function forecast_loop :: "env \<Rightarrow> int \<Rightarrow> int \<Rightarrow> loop_state \<Rightarrow> loop_state" where
  "forecast_loop e now horizon st =
     (if fst st \<le> horizon then forecast_loop e now horizon (forecast_body e now st) else st)"
  by pat_completeness auto
termination
  by (relation "measure (\<lambda>(e, now, horizon, st). nat (horizon + 1 - fst st))")
    (auto simp: forecast_body_def Let_def split: prod.splits)

declare forecast_loop.simps [simp del]

text \<open>The state in which the loop of one node starts, after the draw of the seed.\<close>

definition forecast_init :: "env \<Rightarrow> nat \<Rightarrow> loop_state" where
  "forecast_init e k = (0, 45 + random e k * 20, k + 1, [])"

definition getNodeName :: "string \<Rightarrow> string" where
  "getNodeName nodeId =
     (case map_of
        [(''node_1'', ''Sector 17 Plaza''), (''node_2'', ''Phase 8 Industrial''),
         (''node_3'', ''IT City''), (''node_4'', ''Sector 70 Residential''),
         (''node_5'', ''Aerocity'')] nodeId of
        Some name \<Rightarrow> name
      | None \<Rightarrow> nodeId)"

record node_forecast =
  node_id :: string
  node_name :: string
  forecast :: "forecast_point list"
  trend :: string

datatype js_error = TypeError

text \<open>
  The body of \<^verbatim>\<open>nodes.map\<close> for one node: it reads the clock, draws the seed and runs
  the loop. With a negative horizon the loop makes no iteration and reading
  \<^verbatim>\<open>predicted_stress\<close> of the missing last point throws.
\<close>

definition forecast_node ::
  "env \<Rightarrow> int \<Rightarrow> nat \<Rightarrow> string \<Rightarrow> js_error + node_forecast \<times> nat" where
  "forecast_node e horizon k nid =
     (case forecast_loop e (now_ms e k) horizon (forecast_init e k) of
        (i, prevStress, k', fc) \<Rightarrow>
        if fc = [] then Inl TypeError
        else Inr
          (\<lparr>node_id = nid, node_name = getNodeName nid, forecast = fc,
            trend =
              (if predicted_stress (last fc) - predicted_stress (hd fc) > 8 then ''increasing''
               else if predicted_stress (hd fc) - predicted_stress (last fc) > 8
               then ''decreasing'' else ''stable'')\<rparr>, k'))"

fun forecast_nodes ::
  "env \<Rightarrow> int \<Rightarrow> nat \<Rightarrow> string list \<Rightarrow> js_error + node_forecast list" where
  "forecast_nodes e horizon k [] = Inr []"
| "forecast_nodes e horizon k (nid # nids) =
     (case forecast_node e horizon k nid of
        Inl err \<Rightarrow> Inl err
      | Inr (nf, k') \<Rightarrow>
          (case forecast_nodes e horizon k' nids of
             Inl err \<Rightarrow> Inl err
           | Inr nfs \<Rightarrow> Inr (nf # nfs)))"

datatype forecast_result = One node_forecast | Many "node_forecast list"

text \<open>
  \<open>nodeId\<close> is truthy when it is present and not the empty string; then the result is
  the single forecast (the array mapped from one node has one element), otherwise the
  array for the five known nodes.
\<close>

definition all_nodes :: "string list" where
  "all_nodes = [''node_1'', ''node_2'', ''node_3'', ''node_4'', ''node_5'']"

definition fallbackForecast :: "env \<Rightarrow> string option \<Rightarrow> int \<Rightarrow> js_error + forecast_result" where
  "fallbackForecast e nodeId horizon =
     (case (case nodeId of None \<Rightarrow> None | Some n \<Rightarrow> if n = [] then None else Some n) of
        Some n \<Rightarrow>
          (case forecast_nodes e horizon 0 [n] of
             Inl err \<Rightarrow> Inl err
           | Inr forecasts \<Rightarrow>
               (case forecasts of [] \<Rightarrow> Inl TypeError | f # _ \<Rightarrow> Inr (One f)))
      | None \<Rightarrow>
          (case forecast_nodes e horizon 0 all_nodes of
             Inl err \<Rightarrow> Inl err
           | Inr forecasts \<Rightarrow> Inr (Many forecasts)))"


section \<open>Scoring engine (mockData: calculateStressIndex)\<close>

text \<open>The parameter is typed \<^verbatim>\<open>any\<close> in the source: each field may be absent or \<open>NaN\<close>.\<close>

record sensors =
  noise :: jsval
  temp :: jsval
  airQuality :: jsval
  crowd :: jsval

definition calculateStressIndex :: "sensors \<Rightarrow> jsnum" where
  "calculateStressIndex s =
     (let w_noise = Num (4 / 10); w_temp = Num (25 / 100);
          w_air = Num (2 / 10); w_crowd = Num (15 / 100);
          nScore = Math_min
            (js_mul (js_div (js_sub (ToNumber (sensors.noise s)) (Num 40)) (Num 60)) (Num 100))
            (Num 100);
          tScore = Math_min
            (js_mul (js_div (js_sub (ToNumber (sensors.temp s)) (Num 15)) (Num 25)) (Num 100))
            (Num 100);
          aScore = Math_min
            (js_mul (js_div (ToNumber (sensors.airQuality s)) (Num 150)) (Num 100)) (Num 100);
          dScore = Math_min
            (js_mul (js_div (ToNumber (sensors.crowd s)) (Num 30)) (Num 100)) (Num 100)
      in Math_max (Num 0)
           (Math_round
             (js_add
               (js_add (js_add (js_mul nScore w_noise) (js_mul tScore w_temp))
                  (js_mul aScore w_air))
               (js_mul dScore w_crowd))))"

text \<open>
  The function body has no \<^verbatim>\<open>throw\<close> and no validation: a call on a sensors object
  always completes normally with the value computed. \<open>scoring_outcome\<close> states this in
  the form of a result that could carry an error.
\<close>

datatype error_kind = InvalidInput

definition scoring_outcome :: "sensors \<Rightarrow> error_kind + jsnum" where
  "scoring_outcome s = Inr (calculateStressIndex s)"

text \<open>A reading with all four fields present and numeric.\<close>

definition numeric_sensors :: "real \<Rightarrow> real \<Rightarrow> real \<Rightarrow> real \<Rightarrow> sensors" where
  "numeric_sensors n t a c =
     \<lparr>noise = Number (Num n), temp = Number (Num t),
      airQuality = Number (Num a), crowd = Number (Num c)\<rparr>"

text \<open>A malformed reading: some field is missing or \<open>NaN\<close>.\<close>

definition malformed :: "sensors \<Rightarrow> bool" where
  "malformed s \<longleftrightarrow>
     ToNumber (sensors.noise s) = NaN \<or> ToNumber (sensors.temp s) = NaN \<or>
     ToNumber (sensors.airQuality s) = NaN \<or> ToNumber (sensors.crowd s) = NaN"

subsection \<open>The reference definition, in the specification's words\<close>

definition clamp01to100 :: "real \<Rightarrow> real" where
  "clamp01to100 x = max 0 (min 100 x)"

definition spec_stressIndex :: "real \<Rightarrow> real \<Rightarrow> real \<Rightarrow> real \<Rightarrow> real" where
  "spec_stressIndex n t a c =
     max 0 (round_half_up
       (4 / 10 * clamp01to100 ((n - 40) / 60 * 100)
        + 25 / 100 * clamp01to100 ((t - 15) / 25 * 100)
        + 2 / 10 * clamp01to100 (a / 150 * 100)
        + 15 / 100 * clamp01to100 (c / 30 * 100)))"

text \<open>The same formula with every sub-score bounded above only.\<close>

definition upper_clamped_stressIndex :: "real \<Rightarrow> real \<Rightarrow> real \<Rightarrow> real \<Rightarrow> real" where
  "upper_clamped_stressIndex n t a c =
     max 0 (round_half_up
       (4 / 10 * min 100 ((n - 40) / 60 * 100)
        + 25 / 100 * min 100 ((t - 15) / 25 * 100)
        + 2 / 10 * min 100 (a / 150 * 100)
        + 15 / 100 * min 100 (c / 30 * 100)))"


subsection \<open>The scoring engine in rounded arithmetic\<close>

text \<open>
  JavaScript rounds the result of every arithmetic operation and every decimal literal
  to a double. \<open>calculateStressIndex_fl fl\<close> is the function with that rounding \<open>fl\<close>
  applied after each \<^verbatim>\<open>- / * +\<close> and to the four weights; the integer literals,
  \<^verbatim>\<open>Math.min\<close>, \<^verbatim>\<open>Math.max\<close> and \<^verbatim>\<open>Math.round\<close> are exact. \<open>calculateStressIndex\<close> is the
  instance with exact arithmetic. Rounding to the nearest double is monotone and leaves 0
  unchanged, which is all that \<open>rounding\<close> asks of \<open>fl\<close>.
\<close>

definition rounding :: "(real \<Rightarrow> real) \<Rightarrow> bool" where
  "rounding fl \<longleftrightarrow> (\<forall>x y. x \<le> y \<longrightarrow> fl x \<le> fl y) \<and> fl 0 = 0"

definition calculateStressIndex_fl :: "(real \<Rightarrow> real) \<Rightarrow> sensors \<Rightarrow> jsnum" where
  "calculateStressIndex_fl fl s =
     (let fl_add = js_lift2 (\<lambda>x y. fl (x + y)); fl_sub = js_lift2 (\<lambda>x y. fl (x - y));
          fl_mul = js_lift2 (\<lambda>x y. fl (x * y)); fl_div = js_lift2 (\<lambda>x y. fl (x / y));
          w_noise = Num (fl (4 / 10)); w_temp = Num (fl (25 / 100));
          w_air = Num (fl (2 / 10)); w_crowd = Num (fl (15 / 100));
          nScore = Math_min
            (fl_mul (fl_div (fl_sub (ToNumber (sensors.noise s)) (Num 40)) (Num 60)) (Num 100))
            (Num 100);
          tScore = Math_min
            (fl_mul (fl_div (fl_sub (ToNumber (sensors.temp s)) (Num 15)) (Num 25)) (Num 100))
            (Num 100);
          aScore = Math_min
            (fl_mul (fl_div (ToNumber (sensors.airQuality s)) (Num 150)) (Num 100)) (Num 100);
          dScore = Math_min
            (fl_mul (fl_div (ToNumber (sensors.crowd s)) (Num 30)) (Num 100)) (Num 100)
      in Math_max (Num 0)
           (Math_round
             (fl_add
               (fl_add (fl_add (fl_mul nScore w_noise) (fl_mul tScore w_temp))
                  (fl_mul aScore w_air))
               (fl_mul dScore w_crowd))))"

text \<open>
  The reference formula of the specification evaluated in the same arithmetic, with the
  clamp of the sub-scores as a parameter: \<open>clamp01to100\<close> for the reference definition,
  \<open>min 100\<close> for the clamp above only.
\<close>

definition rounded_stressIndex ::
  "(real \<Rightarrow> real) \<Rightarrow> (real \<Rightarrow> real) \<Rightarrow> real \<Rightarrow> real \<Rightarrow> real \<Rightarrow> real \<Rightarrow> real" where
  "rounded_stressIndex fl clamp n t a c =
     max 0 (round_half_up
       (fl (fl (fl (fl (clamp (fl (fl (fl (n - 40) / 60) * 100)) * fl (4 / 10))
                    + fl (clamp (fl (fl (fl (t - 15) / 25) * 100)) * fl (25 / 100)))
                + fl (clamp (fl (fl (a / 150) * 100)) * fl (2 / 10)))
            + fl (clamp (fl (fl (c / 30) * 100)) * fl (15 / 100)))))"


section \<open>Display label (NodeIntelligence: getStressLabel)\<close>

definition getStressLabel :: "jsnum \<Rightarrow> string" where
  "getStressLabel stress =
     (if js_ge stress 75 then ''CRITICAL ANOMALY''
      else if js_ge stress 50 then ''ELEVATED STRESS''
      else ''NOMINAL PULSE'')"


section \<open>Mock data, activity log and history (mockData, App)\<close>

record nodeData =
  nodeId :: string
  coordinates :: "real \<times> real"
  sensors :: sensors
  stressIndex :: jsnum
  isAnomaly :: bool
  aiExplanation :: string
  timestamp :: int

datatype event_type = Normal | Elevated | Critical

record activityLogEntry =
  entry_id :: string
  timestamp :: int
  nodeId :: string
  eventType :: event_type
  entry_value :: jsnum

record historicalDataPoint = sensors +
  timestamp :: int
  stressIndex :: jsnum

text \<open>The decimal rendering of an integer, as a template literal prints it.\<close>

fun decimal_nat :: "nat \<Rightarrow> string" where
  "decimal_nat n =
     (if n < 10 then [''0123456789'' ! n]
      else decimal_nat (n div 10) @ [''0123456789'' ! (n mod 10)])"

declare decimal_nat.simps [simp del]

definition decimal :: "int \<Rightarrow> string" where
  "decimal n = (if n < 0 then ''-'' @ decimal_nat (nat (- n)) else decimal_nat (nat n))"

text \<open>
  \<open>generateMockNodeData\<close> draws four random numbers for the sensors, scores them and
  derives \<open>isAnomaly\<close> and the explanation from the stress index.
\<close>

definition generateMockNodeData ::
  "env \<Rightarrow> nat \<Rightarrow> string \<Rightarrow> real \<times> real \<Rightarrow> nodeData \<times> nat" where
  "generateMockNodeData e k nid coords =
     (let sens =
            \<lparr>noise = Number (Num (round_half_up ((40 + random e k * 55) * 10) / 10)),
             temp = Number (Num (round_half_up ((18 + random e (k + 1) * 17) * 10) / 10)),
             airQuality = Number (Num (round_half_up (30 + random e (k + 2) * 100))),
             crowd = Number (Num (round_half_up (random e (k + 3) * 25)))\<rparr>;
          stressIndex1 = calculateStressIndex sens;
          isAnomaly1 = js_gt stressIndex1 80;
          aiExplanation1 =
            (if js_gt stressIndex1 80 then
               (if js_gt (ToNumber (sensors.noise sens)) 85
                then ''Critical noise levels detected. Likely heavy construction or congestion.''
                else if js_gt (ToNumber (sensors.temp sens)) 32
                then ''High thermal stress. Heat island effect detected in this sector.''
                else ''Multi-sensor correlation indicates a localized urban stress anomaly.'')
             else if js_gt stressIndex1 55
             then ''Elevated activity levels. Monitoring for potential ordinance threshold breach.''
             else ''Sensing parameters nominal. No immediate infrastructure intervention required.'')
      in (\<lparr>nodeData.nodeId = nid, coordinates = coords, sensors = sens,
           nodeData.stressIndex = stressIndex1, isAnomaly = isAnomaly1,
           aiExplanation = aiExplanation1, nodeData.timestamp = now_ms e (k + 4)\<rparr>,
          k + 4))"

definition generateActivityLog :: "nodeData \<Rightarrow> activityLogEntry" where
  "generateActivityLog nd =
     (let eventType1 =
            (if js_gt (nodeData.stressIndex nd) 80 then Critical
             else if js_gt (nodeData.stressIndex nd) 55 then Elevated
             else Normal)
      in \<lparr>entry_id = nodeData.nodeId nd @ ''-'' @ decimal (nodeData.timestamp nd),
          activityLogEntry.timestamp = nodeData.timestamp nd,
          activityLogEntry.nodeId = nodeData.nodeId nd,
          eventType = eventType1,
          entry_value = nodeData.stressIndex nd\<rparr>)"

text \<open>\<^verbatim>\<open>xs.slice(-n)\<close>: the last \<open>n\<close> elements, all of them when there are fewer.\<close>

definition slice_last :: "nat \<Rightarrow> 'a list \<Rightarrow> 'a list" where
  "slice_last n xs = drop (length xs - n) xs"

definition newPoint :: "nodeData \<Rightarrow> historicalDataPoint" where
  "newPoint currentData =
     sensors.extend (nodeData.sensors currentData)
       (historicalDataPoint.fields (nodeData.timestamp currentData)
          (nodeData.stressIndex currentData))"

definition generateHistoricalData ::
  "nodeData \<Rightarrow> historicalDataPoint list \<Rightarrow> historicalDataPoint list" where
  "generateHistoricalData currentData existingHistory =
     slice_last 20 (existingHistory @ [newPoint currentData])"

text \<open>
  The update of the activity log in App:
  \<^verbatim>\<open>prev => [...newLogEntries.reverse(), ...prev].slice(0, 50)\<close>.
\<close>

definition updateActivityLog :: "'a list \<Rightarrow> 'a list \<Rightarrow> 'a list" where
  "updateActivityLog newLogEntries prev = take 50 (rev newLogEntries @ prev)"

text \<open>The history after the readings \<open>cs\<close> have been appended one by one to \<open>h\<close>.\<close>

definition append_readings ::
  "historicalDataPoint list \<Rightarrow> nodeData list \<Rightarrow> historicalDataPoint list" where
  "append_readings h cs = foldl (\<lambda>hist c. generateHistoricalData c hist) h cs"

text \<open>The activity log after the batches \<open>bs\<close> have been applied in turn to \<open>log0\<close>.\<close>

definition apply_batches :: "'a list \<Rightarrow> 'a list list \<Rightarrow> 'a list" where
  "apply_batches log0 bs = foldl (\<lambda>l b. updateActivityLog b l) log0 bs"

subsection \<open>Severity tiers, in the specification's words\<close>

definition severity_tier :: "jsnum \<Rightarrow> event_type" where
  "severity_tier s =
     (if js_ge s 75 then Critical else if js_ge s 50 then Elevated else Normal)"

definition tier_label :: "event_type \<Rightarrow> string" where
  "tier_label t =
     (case t of Critical \<Rightarrow> ''CRITICAL ANOMALY'' | Elevated \<Rightarrow> ''ELEVATED STRESS''
      | Normal \<Rightarrow> ''NOMINAL PULSE'')"

text \<open>The tiers with the cut points of the activity log: above 80 and above 55.\<close>

definition activity_tier :: "jsnum \<Rightarrow> event_type" where
  "activity_tier s =
     (if js_gt s 80 then Critical else if js_gt s 55 then Elevated else Normal)"


section \<open>Derived notions used in the statements\<close>

text \<open>The \<open>forecast\<close> array with which the loop of one node ends.\<close>

definition forecast_series :: "env \<Rightarrow> int \<Rightarrow> nat \<Rightarrow> forecast_point list" where
  "forecast_series e horizon k =
     snd (snd (snd (forecast_loop e (now_ms e k) horizon (forecast_init e k))))"

text \<open>The per-node forecasts contained in a result of \<open>fallbackForecast\<close>.\<close>

fun forecasts_of :: "forecast_result \<Rightarrow> node_forecast list" where
  "forecasts_of (One f) = [f]"
| "forecasts_of (Many fs) = fs"

text \<open>The confidence formula of the specification, as a predicate on a point.\<close>

definition conf_ok :: "forecast_point \<Rightarrow> bool" where
  "conf_ok p = (confidence p = max (65 / 100) (9 / 10 - 3 / 1000 * of_int (minutes_ahead p)))"

subsection \<open>A concrete environment\<close>

text \<open>
  An evening clock (every hour read is 18, inside the rush window) and a random source
  that always returns one half; with horizon 15 the loop makes two iterations.
\<close>

definition example_env :: env where
  "example_env =
     \<lparr>now_ms = (\<lambda>k. 0), getHours = (\<lambda>t. 18), toISOString = (\<lambda>t. []),
      random = (\<lambda>k. 1 / 2)\<rparr>"

text \<open>A random source whose first draw is 0.9 and every later draw 0.\<close>

definition example_mock_env :: env where
  "example_mock_env =
     \<lparr>now_ms = (\<lambda>k. 0), getHours = (\<lambda>t. 12), toISOString = (\<lambda>t. []),
      random = (\<lambda>k. if k = 0 then 9 / 10 else 0)\<rparr>"

definition example_point0 :: forecast_point where
  "example_point0 =
     \<lparr>forecast_point.timestamp = [], minutes_ahead = 0, predicted_stress = 57,
      predicted_noise = 72, predicted_temp = 28, predicted_aqi = 83,
      predicted_crowd = 14, confidence = 9 / 10\<rparr>"

definition example_point1 :: forecast_point where
  "example_point1 =
     \<lparr>forecast_point.timestamp = [], minutes_ahead = 15, predicted_stress = 59,
      predicted_noise = 73, predicted_temp = 28, predicted_aqi = 84,
      predicted_crowd = 14, confidence = 855 / 1000\<rparr>"

definition example_node_forecast :: node_forecast where
  "example_node_forecast =
     \<lparr>node_id = ''node_3'', node_name = ''IT City'',
      forecast = [example_point0, example_point1], trend = ''stable''\<rparr>"

text \<open>A reading whose five properties are the given numbers.\<close>

definition example_reading :: "real \<Rightarrow> real \<Rightarrow> real \<Rightarrow> real \<Rightarrow> real \<Rightarrow> reading" where
  "example_reading n t a c s =
     \<lparr>reading.noise = Number (Num n), temperature = Number (Num t),
      air_quality = Number (Num a), crowd_density = Number (Num c),
      stress_index = Number (Num s)\<rparr>"

text \<open>A reading without a stress index, every sensor below its threshold.\<close>

definition example_reading_no_stress :: reading where
  "example_reading_no_stress =
     \<lparr>reading.noise = Number (Num 50), temperature = Number (Num 20),
      air_quality = Number (Num 50), crowd_density = Number (Num 5),
      stress_index = Undefined\<rparr>"

definition example_node :: "jsnum \<Rightarrow> nodeData" where
  "example_node s =
     \<lparr>nodeData.nodeId = ''CP-MOH-01'', coordinates = (766934 / 10000, 307046 / 10000),
      sensors = numeric_sensors 70 30 100 20, nodeData.stressIndex = s,
      isAnomaly = js_gt s 80, aiExplanation = [], nodeData.timestamp = 0\<rparr>"


section \<open>Properties of the scoring engine\<close>

lemma calculateStressIndex_numeric:
  "calculateStressIndex (numeric_sensors n t a c) = Num (upper_clamped_stressIndex n t a c)"
  by (simp add: calculateStressIndex_def numeric_sensors_def upper_clamped_stressIndex_def
      js_add_def js_sub_def js_mul_def js_div_def Math_min_def Math_max_def
      min.commute mult.commute)

lemma round_half_up_mono: "x \<le> y \<Longrightarrow> round_half_up x \<le> round_half_up y"
  by (simp add: round_half_up_def floor_mono)

lemma round_half_up_le_100:
  assumes "x \<le> 100"
  shows "round_half_up x \<le> 100"
proof -
  from assms have "x + 1 / 2 < 101" by simp
  then have "\<lfloor>x + 1 / 2\<rfloor> < 101" by (simp add: floor_less_iff)
  then have "\<lfloor>x + 1 / 2\<rfloor> \<le> 100" by simp
  then show ?thesis unfolding round_half_up_def by (metis of_int_le_iff of_int_numeral)
qed

lemma weighted_le_100:
  fixes p q r s :: real
  assumes "p \<le> 100" "q \<le> 100" "r \<le> 100" "s \<le> 100"
  shows "4 / 10 * p + 25 / 100 * q + 2 / 10 * r + 15 / 100 * s \<le> 100"
  using assms by linarith

lemma upper_clamped_bounds:
  "0 \<le> upper_clamped_stressIndex n t a c \<and> upper_clamped_stressIndex n t a c \<le> 100"
proof -
  let ?s = "4 / 10 * min 100 ((n - 40) / 60 * 100)
        + 25 / 100 * min 100 ((t - 15) / 25 * 100)
        + 2 / 10 * min 100 (a / 150 * 100)
        + 15 / 100 * min 100 (c / 30 * 100)"
  have "?s \<le> 100" by (rule weighted_le_100) simp_all
  then have "round_half_up ?s \<le> 100" by (rule round_half_up_le_100)
  then show ?thesis by (simp add: upper_clamped_stressIndex_def)
qed

lemma upper_clamped_int: "\<exists>v::int. upper_clamped_stressIndex n t a c = of_int v"
proof -
  have "max (0::real) (of_int k) = of_int (max 0 k)" for k by (simp add: max_def)
  then show ?thesis unfolding upper_clamped_stressIndex_def round_half_up_def by metis
qed

lemma clamp_ge_baseline: "0 \<le> x \<Longrightarrow> clamp01to100 x = min 100 x"
  by (simp add: clamp01to100_def)

lemma min_le_clamp: "min 100 x \<le> clamp01to100 x"
  by (simp add: clamp01to100_def)

text \<open>The exact model and the exact reference are the instances without rounding.\<close>

lemma calculateStressIndex_fl_exact: "calculateStressIndex_fl (\<lambda>x. x) s = calculateStressIndex s"
  by (simp add: calculateStressIndex_fl_def calculateStressIndex_def js_add_def js_sub_def
      js_mul_def js_div_def Let_def)

lemma rounded_stressIndex_exact:
  "rounded_stressIndex (\<lambda>x. x) clamp01to100 n t a c = spec_stressIndex n t a c"
  by (simp add: rounded_stressIndex_def spec_stressIndex_def mult.commute)

lemma calculateStressIndex_fl_numeric:
  "calculateStressIndex_fl fl (numeric_sensors n t a c) =
     Num (rounded_stressIndex fl (min 100) n t a c)"
  by (simp add: calculateStressIndex_fl_def numeric_sensors_def rounded_stressIndex_def
      Math_min_def Math_max_def Let_def min.commute)

lemma rounding_id: "rounding (\<lambda>x. x)"
  by (simp add: rounding_def)

lemma rounding_mono: "rounding fl \<Longrightarrow> x \<le> y \<Longrightarrow> fl x \<le> fl y"
  by (simp add: rounding_def)

lemma rounding_nonneg: "rounding fl \<Longrightarrow> 0 \<le> x \<Longrightarrow> 0 \<le> fl x"
  using rounding_mono [of fl 0 x] by (simp add: rounding_def)

lemma weighted_term_mono:
  assumes r: "rounding fl" and w: "0 \<le> w" and xy: "x \<le> y"
  shows "fl (x * fl w) \<le> fl (y * fl w)"
  by (intro rounding_mono [OF r] mult_right_mono xy rounding_nonneg [OF r] w)

lemma rounded_stressIndex_mono:
  assumes r: "rounding fl" and cl: "\<And>x. c1 x \<le> c2 x"
  shows "rounded_stressIndex fl c1 n t a c \<le> rounded_stressIndex fl c2 n t a c"
  unfolding rounded_stressIndex_def
  apply (rule max.mono, simp)
  apply (rule round_half_up_mono)
  apply (intro weighted_term_mono [OF r] rounding_mono [OF r] add_mono cl)
  apply simp_all
  done

lemma raw_score_nonneg:
  assumes r: "rounding fl" and "0 \<le> x" "0 < d"
  shows "0 \<le> fl (fl (x / d) * 100)"
  using assms
  by (intro rounding_nonneg [OF r] mult_nonneg_nonneg divide_nonneg_pos) simp_all

lemma rounded_stressIndex_above_baselines:
  assumes r: "rounding fl" and "40 \<le> n" "15 \<le> t" "0 \<le> a" "0 \<le> c"
  shows "rounded_stressIndex fl clamp01to100 n t a c =
         rounded_stressIndex fl (min 100) n t a c"
proof -
  have "0 \<le> fl (n - 40)" "0 \<le> fl (t - 15)"
    using assms by (auto intro: rounding_nonneg)
  then have "0 \<le> fl (fl (fl (n - 40) / 60) * 100)" "0 \<le> fl (fl (fl (t - 15) / 25) * 100)"
    by (auto intro: raw_score_nonneg [OF r])
  moreover have "0 \<le> fl (fl (a / 150) * 100)" "0 \<le> fl (fl (c / 30) * 100)"
    using assms by (auto intro: raw_score_nonneg [OF r])
  ultimately show ?thesis
    by (simp add: rounded_stressIndex_def clamp_ge_baseline)
qed

lemma calculateStressIndex_malformed: "malformed s \<Longrightarrow> calculateStressIndex s = NaN"
  unfolding malformed_def calculateStressIndex_def
  by (auto simp: js_add_def js_sub_def js_mul_def js_div_def Math_min_def Math_max_def Let_def)


subsection \<open>C3: the scoring engine against the reference definition\<close>

text \<open>
  C3 as stated (every sub-score clamped below at 0 as well as above at 100) fails on a
  cold day: at noise 40, temperature 5, airQuality 150, crowd 0 the temperature
  sub-score is \<open>-40\<close>, the function returns 10 and the reference definition gives 20.
\<close>

theorem C3_lower_clamp_counterexample:
  "calculateStressIndex (numeric_sensors 40 5 150 0) = Num 10 \<and>
   spec_stressIndex 40 5 150 0 = 20"
  by (simp add: calculateStressIndex_numeric upper_clamped_stressIndex_def
      spec_stressIndex_def clamp01to100_def round_half_up_def)

text \<open>
  C3 (amended): for every numeric reading, and with every arithmetic operation rounded by
  a monotone rounding that leaves 0 unchanged (as rounding to doubles does), the scoring
  engine equals the reference formula with each sub-score clamped above at 100 only,
  followed by rounding to an integer and a clamp of the total to at least 0. It never
  exceeds the reference definition with sub-scores clamped to [0, 100], evaluated in the
  same arithmetic, and it equals it whenever no sensor is below its baseline (noise at
  least 40, temperature at least 15, airQuality and crowd at least 0).
\<close>

theorem C3_scoring_upper_clamp_only:
  assumes r: "rounding fl"
  shows "calculateStressIndex_fl fl (numeric_sensors n t a c) =
           Num (rounded_stressIndex fl (min 100) n t a c) \<and>
         rounded_stressIndex fl (min 100) n t a c \<le>
           rounded_stressIndex fl clamp01to100 n t a c \<and>
         (40 \<le> n \<and> 15 \<le> t \<and> 0 \<le> a \<and> 0 \<le> c \<longrightarrow>
            calculateStressIndex_fl fl (numeric_sensors n t a c) =
              Num (rounded_stressIndex fl clamp01to100 n t a c))"
  using rounded_stressIndex_mono [OF r, of "min 100" clamp01to100 n t a c]
    rounded_stressIndex_above_baselines [OF r, of n t a c]
  by (simp add: calculateStressIndex_fl_numeric min_le_clamp)

theorem C3_scoring_witness:
  "rounding (\<lambda>x. x) \<and>
   (40::real) \<le> 70 \<and> (15::real) \<le> 15 \<and> (0::real) \<le> 0 \<and>
   calculateStressIndex_fl (\<lambda>x. x) (numeric_sensors 70 15 0 0) =
     Num (rounded_stressIndex (\<lambda>x. x) clamp01to100 70 15 0 0) \<and>
   rounded_stressIndex (\<lambda>x. x) clamp01to100 70 15 0 0 = 20"
  using C3_scoring_upper_clamp_only [OF rounding_id, of 70 15 0 0]
  by (simp add: rounding_id rounded_stressIndex_def clamp01to100_def round_half_up_def)


subsection \<open>C5: the stress index of a numeric reading lies in [0, 100]\<close>

text \<open>
  C5: for every reading whose four fields are present and numeric (any real values, also
  below the normalisation baselines), calculateStressIndex returns an integer between 0
  and 100.
\<close>

theorem C5_stressIndex_in_range:
  "\<exists>v::int. calculateStressIndex (numeric_sensors n t a c) = Num (of_int v) \<and>
     0 \<le> v \<and> v \<le> 100"
proof -
  obtain v :: int where v: "upper_clamped_stressIndex n t a c = of_int v"
    using upper_clamped_int by blast
  have "0 \<le> (of_int v :: real) \<and> (of_int v :: real) \<le> 100"
    using upper_clamped_bounds [of n t a c] v by simp
  then have "0 \<le> v \<and> v \<le> 100"
    by (metis of_int_le_iff of_int_numeral of_int_0_le_iff)
  then show ?thesis using v calculateStressIndex_numeric by auto
qed


subsection \<open>C6: malformed readings\<close>

text \<open>
  C6 as stated (scoring a malformed reading fails with InvalidInput) does not hold: on a
  reading whose noise field is missing the call completes normally and returns \<open>NaN\<close>.
\<close>

theorem C6_missing_field_counterexample:
  "scoring_outcome \<lparr>noise = Undefined, temp = Number (Num 20),
      airQuality = Number (Num 50), crowd = Number (Num 5)\<rparr> = Inr NaN \<and>
   scoring_outcome \<lparr>noise = Undefined, temp = Number (Num 20),
      airQuality = Number (Num 50), crowd = Number (Num 5)\<rparr> \<noteq> Inl InvalidInput"
  by (simp add: scoring_outcome_def calculateStressIndex_def
      js_add_def js_sub_def js_mul_def js_div_def Math_min_def Math_max_def)

text \<open>
  C6 (amended): for every malformed reading (a missing or \<open>NaN\<close> field) scoring does not
  fail: the call completes normally and its value is \<open>NaN\<close>, never a number.
\<close>

theorem C6_malformed_returns_NaN:
  "malformed s \<Longrightarrow> scoring_outcome s = Inr NaN"
  by (simp add: scoring_outcome_def calculateStressIndex_malformed)

theorem C6_malformed_witness:
  "malformed \<lparr>noise = Number (Num 50), temp = Number NaN,
      airQuality = Number (Num 50), crowd = Number (Num 5)\<rparr> \<and>
   scoring_outcome \<lparr>noise = Number (Num 50), temp = Number NaN,
      airQuality = Number (Num 50), crowd = Number (Num 5)\<rparr> = Inr NaN"
  using C6_malformed_returns_NaN
    [of "\<lparr>noise = Number (Num 50), temp = Number NaN,
      airQuality = Number (Num 50), crowd = Number (Num 5)\<rparr>"]
  by (simp add: malformed_def)

section \<open>Properties of the fallback anomaly detection\<close>

subsection \<open>C1: when a reading is an anomaly\<close>

text \<open>
  C1 as stated fails twice. On the mock generator: with a first random draw of 0.9 and
  the others 0 the reading has noise 89.5 (above the noise threshold of 85) and stress
  index 40; isAnomaly is false, and the explanation is the nominal status string. On the
  fallback detection: for a reading without stress_index whose sensors are all below
  their thresholds the early return is skipped (the comparison with 80 is false) and the
  result has is_anomaly false together with an explanation, the empty string.
\<close>

theorem C1_mock_generator_counterexample:
  "sensors.noise (nodeData.sensors
     (fst (generateMockNodeData example_mock_env 0 ''CP-MOH-01'' (0, 0)))) =
     Number (Num (895 / 10)) \<and>
   nodeData.stressIndex (fst (generateMockNodeData example_mock_env 0 ''CP-MOH-01'' (0, 0))) =
     Num 40 \<and>
   isAnomaly (fst (generateMockNodeData example_mock_env 0 ''CP-MOH-01'' (0, 0))) = False \<and>
   aiExplanation (fst (generateMockNodeData example_mock_env 0 ''CP-MOH-01'' (0, 0))) =
     ''Sensing parameters nominal. No immediate infrastructure intervention required.'' \<and>
   is_anomaly (fallbackAnomalyDetection (\<lambda>v. []) example_reading_no_stress) = False \<and>
   signals (fallbackAnomalyDetection (\<lambda>v. []) example_reading_no_stress) = Some [] \<and>
   explanation (fallbackAnomalyDetection (\<lambda>v. []) example_reading_no_stress) = Some []"
  by (simp add: generateMockNodeData_def example_mock_env_def round_half_up_def Let_def
      calculateStressIndex_def js_add_def js_sub_def js_mul_def js_div_def Math_min_def
      Math_max_def fallbackAnomalyDetection_def example_reading_no_stress_def)

text \<open>
  C1 (amended): for every reading, the result of the fallback anomaly detection satisfies
  is_anomaly = (stress_index > 80 or the signals set is non-empty), for the signals of
  the result as well as for the tags whose thresholds fired, and whenever is_anomaly is
  false the signals set is empty. A result with is_anomaly false has neither signals nor
  explanation when stress_index is a number (it is then at most 80); when stress_index is
  absent or NaN it carries the empty array of signals and the empty string as
  explanation; there is no third case. The mock generator produces no signals: its
  isAnomaly is stressIndex > 80 alone, and it always produces an explanation string; when
  isAnomaly is false that string is the elevated-activity text if stressIndex > 55 and
  the nominal text otherwise.
\<close>

theorem C1_is_anomaly_iff:
  "is_anomaly (fallbackAnomalyDetection str r) =
     (js_gt (ToNumber (stress_index r)) 80 \<or>
      signal_set (fallbackAnomalyDetection str r) \<noteq> {}) \<and>
   is_anomaly (fallbackAnomalyDetection str r) =
     (js_gt (ToNumber (stress_index r)) 80 \<or> fired_tags r \<noteq> {}) \<and>
   (\<not> is_anomaly (fallbackAnomalyDetection str r) \<longrightarrow>
      signal_set (fallbackAnomalyDetection str r) = {} \<and>
      (js_le (ToNumber (stress_index r)) 80 \<longrightarrow>
         signals (fallbackAnomalyDetection str r) = None \<and>
         explanation (fallbackAnomalyDetection str r) = None) \<and>
      (ToNumber (stress_index r) = NaN \<longrightarrow>
         signals (fallbackAnomalyDetection str r) = Some [] \<and>
         explanation (fallbackAnomalyDetection str r) = Some []) \<and>
      (js_le (ToNumber (stress_index r)) 80 \<or> ToNumber (stress_index r) = NaN)) \<and>
   (let nd = fst (generateMockNodeData e k nid coords) in
      isAnomaly nd = js_gt (nodeData.stressIndex nd) 80 \<and>
      aiExplanation nd \<noteq> [] \<and>
      (\<not> isAnomaly nd \<longrightarrow>
         aiExplanation nd =
           (if js_gt (nodeData.stressIndex nd) 55
            then ''Elevated activity levels. Monitoring for potential ordinance threshold breach.''
            else ''Sensing parameters nominal. No immediate infrastructure intervention required.'')))"
proof -
  have detector:
    "is_anomaly (fallbackAnomalyDetection str r) =
       (js_gt (ToNumber (stress_index r)) 80 \<or>
        signal_set (fallbackAnomalyDetection str r) \<noteq> {}) \<and>
     is_anomaly (fallbackAnomalyDetection str r) =
       (js_gt (ToNumber (stress_index r)) 80 \<or> fired_tags r \<noteq> {}) \<and>
     (\<not> is_anomaly (fallbackAnomalyDetection str r) \<longrightarrow>
        signal_set (fallbackAnomalyDetection str r) = {} \<and>
        (js_le (ToNumber (stress_index r)) 80 \<longrightarrow>
           signals (fallbackAnomalyDetection str r) = None \<and>
           explanation (fallbackAnomalyDetection str r) = None) \<and>
        (ToNumber (stress_index r) = NaN \<longrightarrow>
           signals (fallbackAnomalyDetection str r) = Some [] \<and>
           explanation (fallbackAnomalyDetection str r) = Some []) \<and>
        (js_le (ToNumber (stress_index r)) 80 \<or> ToNumber (stress_index r) = NaN))"
    by (cases "ToNumber (stress_index r)")
      (auto simp: fallbackAnomalyDetection_def signal_set_def fired_tags_def Let_def)
  have generator:
    "(let nd = fst (generateMockNodeData e k nid coords) in
        isAnomaly nd = js_gt (nodeData.stressIndex nd) 80 \<and>
        aiExplanation nd \<noteq> [] \<and>
        (\<not> isAnomaly nd \<longrightarrow>
           aiExplanation nd =
             (if js_gt (nodeData.stressIndex nd) 55
              then ''Elevated activity levels. Monitoring for potential ordinance threshold breach.''
              else ''Sensing parameters nominal. No immediate infrastructure intervention required.'')))"
    by (simp add: generateMockNodeData_def Let_def)
  from detector generator show ?thesis by blast
qed

theorem C1_is_anomaly_witness:
  "\<not> is_anomaly (fallbackAnomalyDetection (\<lambda>x. []) (example_reading 50 20 50 5 30)) \<and>
   js_le (ToNumber (stress_index (example_reading 50 20 50 5 30))) 80 \<and>
   signal_set (fallbackAnomalyDetection (\<lambda>x. []) (example_reading 50 20 50 5 30)) = {} \<and>
   explanation (fallbackAnomalyDetection (\<lambda>x. []) (example_reading 50 20 50 5 30)) = None"
  using C1_is_anomaly_iff [of "\<lambda>x. []" "example_reading 50 20 50 5 30"]
  by (simp add: fallbackAnomalyDetection_def example_reading_def)


subsection \<open>C2: the composite tag\<close>

text \<open>
  C2 at a failing input: the reading with noise 50, temperature 20, air_quality 50,
  crowd_density 30 and stress_index 85 fires the crowd threshold only, and the result
  carries the tag composite next to crowd. The chain that chooses the explanation tests
  noise, heat and air_quality and has no branch for crowd.
\<close>

theorem C2_crowd_gets_composite:
  "signals (fallbackAnomalyDetection str (example_reading 50 20 50 30 85)) =
     Some [''crowd'', ''composite''] \<and>
   fired_tags (example_reading 50 20 50 30 85) = {''crowd''}"
  by (simp add: fallbackAnomalyDetection_def fired_tags_def example_reading_def)

text \<open>What the code does in general: crowd_density plays no part in the composite tag.\<close>

lemma composite_iff:
  "(''composite'' \<in> signal_set (fallbackAnomalyDetection str r)) =
   (js_gt (ToNumber (stress_index r)) 80 \<and> \<not> js_gt (ToNumber (reading.noise r)) 85 \<and>
    \<not> js_gt (ToNumber (temperature r)) 35 \<and> \<not> js_gt (ToNumber (air_quality r)) 120)"
  by (cases "ToNumber (stress_index r)")
    (auto simp: fallbackAnomalyDetection_def signal_set_def Let_def)


subsection \<open>C10: a reading that fires the crowd threshold only\<close>

text \<open>
  C10: for every reading with crowd_density > 25 while noise is at most 85, temperature
  at most 35, air_quality at most 120 and stress_index at most 80, the result has
  is_anomaly = true, signals = [crowd] and the empty string as explanation.
\<close>

theorem C10_crowd_only:
  assumes "js_gt (ToNumber (crowd_density r)) 25" "js_le (ToNumber (reading.noise r)) 85"
    "js_le (ToNumber (temperature r)) 35" "js_le (ToNumber (air_quality r)) 120"
    "js_le (ToNumber (stress_index r)) 80"
  shows "is_anomaly (fallbackAnomalyDetection str r) = True \<and>
         signals (fallbackAnomalyDetection str r) = Some [''crowd''] \<and>
         explanation (fallbackAnomalyDetection str r) = Some []"
proof -
  have n: "\<not> js_gt (ToNumber (reading.noise r)) 85"
    using assms(2) by (cases "ToNumber (reading.noise r)") auto
  have t: "\<not> js_gt (ToNumber (temperature r)) 35"
    using assms(3) by (cases "ToNumber (temperature r)") auto
  have a: "\<not> js_gt (ToNumber (air_quality r)) 120"
    using assms(4) by (cases "ToNumber (air_quality r)") auto
  have s: "\<not> js_gt (ToNumber (stress_index r)) 80"
    using assms(5) by (cases "ToNumber (stress_index r)") auto
  show ?thesis using assms(1) n t a s by (simp add: fallbackAnomalyDetection_def Let_def)
qed

theorem C10_crowd_only_witness:
  "js_gt (ToNumber (crowd_density (example_reading 50 20 50 30 60))) 25 \<and>
   js_le (ToNumber (reading.noise (example_reading 50 20 50 30 60))) 85 \<and>
   js_le (ToNumber (temperature (example_reading 50 20 50 30 60))) 35 \<and>
   js_le (ToNumber (air_quality (example_reading 50 20 50 30 60))) 120 \<and>
   js_le (ToNumber (stress_index (example_reading 50 20 50 30 60))) 80 \<and>
   is_anomaly (fallbackAnomalyDetection (\<lambda>x. []) (example_reading 50 20 50 30 60)) = True \<and>
   signals (fallbackAnomalyDetection (\<lambda>x. []) (example_reading 50 20 50 30 60)) =
     Some [''crowd''] \<and>
   explanation (fallbackAnomalyDetection (\<lambda>x. []) (example_reading 50 20 50 30 60)) =
     Some []"
  using C10_crowd_only [of "example_reading 50 20 50 30 60" "\<lambda>x. []"]
  by (simp add: example_reading_def)


section \<open>Properties of the fallback forecast\<close>

lemma round_half_up_bounds:
  assumes "20 \<le> x" "x \<le> 85"
  shows "20 \<le> round_half_up x \<and> round_half_up x \<le> 85"
proof -
  have "(20::int) \<le> \<lfloor>x + 1 / 2\<rfloor>" using assms by (simp add: le_floor_iff)
  moreover have "\<lfloor>x + 1 / 2\<rfloor> < (86::int)" using assms by (simp add: floor_less_iff)
  ultimately have "(20::int) \<le> \<lfloor>x + 1 / 2\<rfloor> \<and> \<lfloor>x + 1 / 2\<rfloor> \<le> (85::int)" by simp
  then have "(of_int 20 :: real) \<le> of_int \<lfloor>x + 1 / 2\<rfloor> \<and>
      (of_int \<lfloor>x + 1 / 2\<rfloor> :: real) \<le> of_int 85"
    by (simp only: of_int_le_iff)
  then show ?thesis by (simp add: round_half_up_def)
qed

text \<open>
  The smoothing step maps [20, 85] into itself: with a base factor of 0.8, 1.2 or 1.4
  and a random draw in [0, 1) the new value lies between 22.3 and 80.9.
\<close>

lemma next_stress_bounds:
  fixes prev u bf :: real
  assumes "20 \<le> prev" "prev \<le> 85" "0 \<le> u" "u < 1"
    "bf = 8 / 10 \<or> bf = 12 / 10 \<or> bf = 14 / 10"
  shows "20 \<le> prev * (7 / 10) + (45 * bf) * (3 / 10) + (u - 1 / 2) * 5"
    and "prev * (7 / 10) + (45 * bf) * (3 / 10) + (u - 1 / 2) * 5 \<le> 85"
  using assms by auto

lemma forecast_body_step:
  assumes rnd: "\<forall>k. 0 \<le> random e k \<and> random e k < 1"
    and prev: "20 \<le> prev" "prev \<le> 85"
  shows "\<exists>stress pt.
           forecast_body e now (i, prev, k, fc) = (i + 15, stress, k + 2, fc @ [pt]) \<and>
           20 \<le> stress \<and> stress \<le> 85 \<and> predicted_stress pt = stress"
proof -
  define hour where "hour = getHours e (now + i * 60 * 1000)"
  define bf :: real where
    "bf = (if hour \<ge> 17 \<and> hour \<le> 19 then 14 / 10
           else if hour \<ge> 8 \<and> hour \<le> 20 then 12 / 10 else 8 / 10)"
  define x where "x = prev * (7 / 10) + (45 * bf) * (3 / 10) + (random e k - 1 / 2) * 5"
  have bf: "bf = 8 / 10 \<or> bf = 12 / 10 \<or> bf = 14 / 10" by (simp add: bf_def)
  have u: "0 \<le> random e k" "random e k < 1" using rnd by auto
  have "20 \<le> x" "x \<le> 85"
    unfolding x_def using next_stress_bounds [OF prev u bf] by auto
  then have rb: "20 \<le> round_half_up x \<and> round_half_up x \<le> 85"
    by (rule round_half_up_bounds)
  have "forecast_body e now (i, prev, k, fc) =
      (i + 15, round_half_up x, k + 2, fc @ [
         \<lparr>forecast_point.timestamp = toISOString e (now + i * 60 * 1000),
          minutes_ahead = i,
          predicted_stress = max 20 (min 85 (round_half_up x)),
          predicted_noise = round_half_up (55 + round_half_up x * (3 / 10)),
          predicted_temp = round_half_up (25 + random e (k + 1) * 5),
          predicted_aqi = round_half_up (60 + round_half_up x * (4 / 10)),
          predicted_crowd = round_half_up (5 + round_half_up x * (15 / 100)),
          confidence = max (65 / 100) (9 / 10 - (of_int i * (3 / 1000)))\<rparr>])"
    by (simp add: forecast_body_def Let_def x_def bf_def hour_def)
  moreover have "max 20 (min 85 (round_half_up x)) = round_half_up x" using rb by simp
  ultimately show ?thesis using rb by simp
qed

text \<open>The loop is the iteration of its body.\<close>

lemma forecast_loop_funpow:
  "\<exists>n. forecast_loop e now horizon st = (forecast_body e now ^^ n) st"
proof (induction e now horizon st rule: forecast_loop.induct)
  case (1 e now horizon st)
  show ?case
  proof (cases "fst st \<le> horizon")
    case True
    with 1 obtain n where
      "forecast_loop e now horizon (forecast_body e now st) =
         (forecast_body e now ^^ n) (forecast_body e now st)"
      by blast
    then have "forecast_loop e now horizon st = (forecast_body e now ^^ Suc n) st"
      using True by (simp add: forecast_loop.simps [of e now horizon st] funpow_swap1)
    then show ?thesis by blast
  next
    case False
    then have "forecast_loop e now horizon st = (forecast_body e now ^^ 0) st"
      by (simp add: forecast_loop.simps [of e now horizon st])
    then show ?thesis by blast
  qed
qed

lemma forecast_body_conf:
  assumes "\<forall>p \<in> set (snd (snd (snd st))). conf_ok p"
  shows "\<forall>p \<in> set (snd (snd (snd (forecast_body e now st)))). conf_ok p"
  using assms by (cases st) (auto simp: forecast_body_def Let_def conf_ok_def)

lemma forecast_loop_conf:
  "\<forall>p \<in> set (snd (snd (snd st))). conf_ok p \<Longrightarrow>
   \<forall>p \<in> set (snd (snd (snd (forecast_loop e now horizon st)))). conf_ok p"
proof (induction e now horizon st rule: forecast_loop.induct)
  case (1 e now horizon st)
  show ?case
  proof (cases "fst st \<le> horizon")
    case True
    then show ?thesis using 1 forecast_body_conf [of st e now]
      by (simp add: forecast_loop.simps [of e now horizon st])
  next
    case False
    then show ?thesis using 1 by (simp add: forecast_loop.simps [of e now horizon st])
  qed
qed

lemma forecast_series_conf: "p \<in> set (forecast_series e horizon k) \<Longrightarrow> conf_ok p"
  using forecast_loop_conf [of "forecast_init e k" e "now_ms e k" horizon]
  by (simp add: forecast_series_def forecast_init_def)

lemma conf_ok_mono:
  assumes "conf_ok p" "conf_ok q" "minutes_ahead p \<le> minutes_ahead q"
  shows "confidence q \<le> confidence p"
proof -
  have "(of_int (minutes_ahead p) :: real) \<le> of_int (minutes_ahead q)"
    using assms(3) by simp
  then show ?thesis using assms(1,2) unfolding conf_ok_def by auto
qed

text \<open>Every series in a result of \<open>fallbackForecast\<close> is the array of one run of the loop.\<close>

lemma forecast_node_series:
  "forecast_node e horizon k nid = Inr (nf, k') \<Longrightarrow> forecast nf = forecast_series e horizon k"
  by (auto simp: forecast_node_def forecast_series_def split: prod.splits if_splits)

lemma forecast_nodes_series:
  "forecast_nodes e horizon k nids = Inr nfs \<Longrightarrow> nf \<in> set nfs \<Longrightarrow>
   \<exists>k'. forecast nf = forecast_series e horizon k'"
proof (induction nids arbitrary: k nfs)
  case Nil
  then show ?case by simp
next
  case (Cons nid nids)
  from Cons.prems(1) obtain f k1 fs where
    node: "forecast_node e horizon k nid = Inr (f, k1)" and
    rest: "forecast_nodes e horizon k1 nids = Inr fs" and
    nfs: "nfs = f # fs"
    by (auto split: sum.splits prod.splits)
  from Cons.prems(2) nfs have "nf = f \<or> nf \<in> set fs" by auto
  then show ?case
  proof
    assume "nf = f"
    then show ?thesis using forecast_node_series [OF node] by blast
  next
    assume "nf \<in> set fs"
    then show ?thesis using Cons.IH [OF rest] by blast
  qed
qed

lemma fallbackForecast_series:
  assumes "fallbackForecast e nid horizon = Inr res" "nf \<in> set (forecasts_of res)"
  shows "\<exists>k'. forecast nf = forecast_series e horizon k'"
proof -
  from assms(1) obtain nids nfs where
    nodes: "forecast_nodes e horizon 0 nids = Inr nfs" and
    sub: "set (forecasts_of res) \<subseteq> set nfs"
    by (auto simp: fallbackForecast_def simp del: forecast_nodes.simps
        split: option.splits sum.splits list.splits if_splits)
  from sub assms(2) have "nf \<in> set nfs" by blast
  then show ?thesis using forecast_nodes_series [OF nodes] by blast
qed

subsection \<open>The concrete environment, evaluated\<close>

lemma example_random: "\<forall>k. 0 \<le> random example_env k \<and> random example_env k < 1"
  by (simp add: example_env_def)

lemma example_init: "forecast_init example_env 0 = (0, 55, Suc 0, [])"
  by (simp add: forecast_init_def example_env_def)

lemma example_step0:
  "forecast_body example_env 0 (0, 55, Suc 0, []) = (15, 57, 3, [example_point0])"
  by (simp add: forecast_body_def example_env_def example_point0_def Let_def
      round_half_up_def)

lemma example_step1:
  "forecast_body example_env 0 (15, 57, 3, [example_point0]) =
     (30, 59, 5, [example_point0, example_point1])"
  by (simp add: forecast_body_def example_env_def example_point1_def Let_def
      round_half_up_def)

lemma example_loop:
  "forecast_loop example_env 0 15 (forecast_init example_env 0) =
     (30, 59, 5, [example_point0, example_point1])"
  apply (simp only: example_init)
  apply (subst forecast_loop.simps, simp add: example_step0)
  apply (subst forecast_loop.simps, simp add: example_step1)
  apply (subst forecast_loop.simps, simp)
  done

lemma example_now: "now_ms example_env k = 0"
  by (simp add: example_env_def)

lemma example_forecast:
  "fallbackForecast example_env (Some ''node_3'') 15 = Inr (One example_node_forecast)"
  by (simp add: fallbackForecast_def forecast_node_def example_now example_loop
      getNodeName_def example_node_forecast_def example_point0_def example_point1_def)


subsection \<open>C7: the running previous stress\<close>

text \<open>
  C7: when every random draw lies in [0, 1), then for every clock, after every number n
  of iterations of the loop, started from the seeded state, prevStress lies in [20, 85] and,
  once a point has been produced, equals the clamped predicted_stress of the point just
  produced: the clamped value is the prevStress of the next step. The state in which the
  loop ends is one of these states. (The code stores the rounded value before clamping;
  on these states the clamp leaves it unchanged.)
\<close>

theorem C7_prevStress_is_clamped_stress:
  assumes rnd: "\<forall>k. 0 \<le> random e k \<and> random e k < 1"
  shows "(case (forecast_body e now ^^ n) (forecast_init e k) of
            (i, prevStress, k', fc) \<Rightarrow>
              20 \<le> prevStress \<and> prevStress \<le> 85 \<and>
              (0 < n \<longrightarrow> fc \<noteq> [] \<and> predicted_stress (last fc) = prevStress)) \<and>
         (\<exists>m. forecast_loop e now horizon (forecast_init e k) =
                (forecast_body e now ^^ m) (forecast_init e k))"
proof
  show "case (forecast_body e now ^^ n) (forecast_init e k) of
          (i, prevStress, k', fc) \<Rightarrow>
            20 \<le> prevStress \<and> prevStress \<le> 85 \<and>
            (0 < n \<longrightarrow> fc \<noteq> [] \<and> predicted_stress (last fc) = prevStress)"
  proof (induction n)
    case 0
    have "0 \<le> random e k \<and> random e k < 1" using rnd by simp
    then show ?case by (simp add: forecast_init_def)
  next
    case (Suc n)
    obtain i p k' fc where
      st: "(forecast_body e now ^^ n) (forecast_init e k) = (i, p, k', fc)"
      by (metis prod_cases4)
    with Suc have p: "20 \<le> p" "p \<le> 85" by auto
    from forecast_body_step [OF rnd p, of now i k' fc] st show ?case by auto
  qed
next
  show "\<exists>m. forecast_loop e now horizon (forecast_init e k) =
              (forecast_body e now ^^ m) (forecast_init e k)"
    by (rule forecast_loop_funpow)
qed

theorem C7_prevStress_witness:
  "(\<forall>k. 0 \<le> random example_env k \<and> random example_env k < 1) \<and>
   (forecast_body example_env 0 ^^ 2) (forecast_init example_env 0) =
     (30, 59, 5, [example_point0, example_point1]) \<and>
   (20::real) \<le> 59 \<and> (59::real) \<le> 85 \<and>
   predicted_stress (last [example_point0, example_point1]) = 59"
proof -
  have two: "(forecast_body example_env 0 ^^ 2) (forecast_init example_env 0) =
      (30, 59, 5, [example_point0, example_point1])"
    by (simp add: numeral_2_eq_2 example_init example_step0 example_step1)
  from C7_prevStress_is_clamped_stress
    [OF example_random, where n = 2 and now = 0 and k = 0 and horizon = 15] two
  show ?thesis by (simp add: example_random)
qed


subsection \<open>C8: confidence decays with the horizon\<close>

text \<open>
  C8: for every forecast series in a result of the fallback generator and every two
  points p, q of it, the confidence of p is max(0.65, 0.9 - 0.003 * minutes_ahead), and
  if p is not further ahead than q then the confidence of p is at least that of q.
\<close>

theorem C8_confidence_non_increasing:
  assumes "fallbackForecast e nid horizon = Inr res"
    and "nf \<in> set (forecasts_of res)"
    and "p \<in> set (forecast nf)" and "q \<in> set (forecast nf)"
  shows "confidence p = max (65 / 100) (9 / 10 - 3 / 1000 * of_int (minutes_ahead p)) \<and>
         (minutes_ahead p \<le> minutes_ahead q \<longrightarrow> confidence q \<le> confidence p)"
proof -
  from fallbackForecast_series [OF assms(1,2)] obtain k' where
    "forecast nf = forecast_series e horizon k'" by blast
  with assms(3,4) have pq: "conf_ok p" "conf_ok q"
    by (auto intro: forecast_series_conf)
  from pq(1) have "confidence p = max (65 / 100) (9 / 10 - 3 / 1000 * of_int (minutes_ahead p))"
    by (simp add: conf_ok_def)
  moreover have "minutes_ahead p \<le> minutes_ahead q \<longrightarrow> confidence q \<le> confidence p"
    using conf_ok_mono [OF pq] by blast
  ultimately show ?thesis by blast
qed

theorem C8_confidence_witness:
  "fallbackForecast example_env (Some ''node_3'') 15 = Inr (One example_node_forecast) \<and>
   example_node_forecast \<in> set (forecasts_of (One example_node_forecast)) \<and>
   example_point0 \<in> set (forecast example_node_forecast) \<and>
   example_point1 \<in> set (forecast example_node_forecast) \<and>
   minutes_ahead example_point0 \<le> minutes_ahead example_point1 \<and>
   confidence example_point1 \<le> confidence example_point0 \<and>
   confidence example_point0 = 9 / 10"
  using C8_confidence_non_increasing
    [OF example_forecast, of example_node_forecast example_point0 example_point1]
  by (simp add: example_forecast example_node_forecast_def example_point0_def
      example_point1_def)


section \<open>Properties of the severity tiers\<close>

subsection \<open>C4: the cut points of the label and of the activity log\<close>

text \<open>
  C4 as stated (the label and the activity log both use the cut points 75 and 50) fails
  at stressIndex 78: the label is CRITICAL ANOMALY, the log entry is Elevated.
\<close>

theorem C4_activity_log_counterexample:
  "getStressLabel (Num 78) = ''CRITICAL ANOMALY'' \<and>
   severity_tier (Num 78) = Critical \<and>
   eventType (generateActivityLog (example_node (Num 78))) = Elevated"
  by (simp add: getStressLabel_def severity_tier_def generateActivityLog_def
      example_node_def)

text \<open>
  C4 (amended): the display label uses the cut points 75 and 50 (Critical from 75,
  Elevated from 50 to below 75, Nominal otherwise); the eventType of the activity log
  uses its own cut points: Critical above 80, Elevated above 55 and up to 80, Normal
  otherwise. The two tiers of a number differ exactly when it lies in [50, 55] or in
  [75, 80].
\<close>

theorem C4_tier_cut_points:
  "getStressLabel s = tier_label (severity_tier s) \<and>
   eventType (generateActivityLog nd) = activity_tier (nodeData.stressIndex nd) \<and>
   ((activity_tier (Num v) = severity_tier (Num v)) =
      (\<not> (50 \<le> v \<and> v \<le> 55) \<and> \<not> (75 \<le> v \<and> v \<le> 80)))"
  by (auto simp: getStressLabel_def tier_label_def severity_tier_def
      generateActivityLog_def activity_tier_def)


section \<open>Properties of the bounded buffers\<close>

lemma slice_last_append: "slice_last n (slice_last n xs @ [x]) = slice_last n (xs @ [x])"
proof (cases "n \<le> length xs")
  case True
  then have "Suc (length xs) - (length xs - n + n) + (length xs - n) = Suc (length xs) - n"
    by simp
  then show ?thesis by (simp add: slice_last_def)
next
  case False
  then show ?thesis by (simp add: slice_last_def)
qed

lemma append_readings_slice:
  "append_readings (slice_last 20 h) cs = slice_last 20 (h @ map newPoint cs)"
proof (induction cs arbitrary: h)
  case Nil
  then show ?case by (simp add: append_readings_def slice_last_def)
next
  case (Cons c cs)
  have "append_readings (slice_last 20 h) (c # cs) =
      append_readings (slice_last 20 (slice_last 20 h @ [newPoint c])) cs"
    by (simp add: append_readings_def generateHistoricalData_def)
  also have "\<dots> = append_readings (slice_last 20 (h @ [newPoint c])) cs"
    by (simp add: slice_last_append)
  also have "\<dots> = slice_last 20 ((h @ [newPoint c]) @ map newPoint cs)"
    by (rule Cons.IH)
  finally show ?case by simp
qed

lemma append_readings_empty: "append_readings [] cs = slice_last 20 (map newPoint cs)"
  using append_readings_slice [of "[]" cs] by (simp add: slice_last_def)

lemma take_append_take: "take n (xs @ take n ys) = take n (xs @ ys)"
  by (simp add: min_def)

lemma apply_batches_take:
  "apply_batches (take 50 l) bs = take 50 (rev (concat bs) @ l)"
proof (induction bs arbitrary: l)
  case Nil
  then show ?case by (simp add: apply_batches_def)
next
  case (Cons b bs)
  have "apply_batches (take 50 l) (b # bs) = apply_batches (take 50 (rev b @ take 50 l)) bs"
    by (simp add: apply_batches_def updateActivityLog_def)
  also have "\<dots> = apply_batches (take 50 (rev b @ l)) bs"
    by (simp only: take_append_take)
  also have "\<dots> = take 50 (rev (concat bs) @ rev b @ l)"
    by (rule Cons.IH)
  finally show ?case by simp
qed

subsection \<open>C9: capacity of the history and of the activity log\<close>

text \<open>
  C9: after any sequence of n appends to the empty history, the history holds exactly
  min(n, 20) points, the last min(n, 20) appended, in the order of appending. Every update
  of the activity log leaves at most 50 entries; starting from a log of at most 50
  entries, the log after any sequence of batches is the first 50 of all entries, newest
  first.
\<close>

theorem C9_bounded_buffers:
  "append_readings [] cs = drop (length cs - 20) (map newPoint cs) \<and>
   length (append_readings [] cs) = min (length cs) 20 \<and>
   length (updateActivityLog new prev) \<le> 50 \<and>
   (length log0 \<le> 50 \<longrightarrow>
      apply_batches log0 bs = take 50 (rev (concat bs) @ log0) \<and>
      length (apply_batches log0 bs) \<le> 50)"
proof -
  have hist: "append_readings [] cs = drop (length cs - 20) (map newPoint cs)"
    by (simp add: append_readings_empty slice_last_def)
  have len: "length (append_readings [] cs) = min (length cs) 20"
    unfolding hist by (simp add: min_def)
  have upd: "length (updateActivityLog new prev) \<le> 50"
    unfolding updateActivityLog_def length_take by (rule min.cobounded2)
  have log: "apply_batches log0 bs = take 50 (rev (concat bs) @ log0) \<and>
      length (apply_batches log0 bs) \<le> 50" if "length log0 \<le> 50"
  proof -
    from that have "take 50 log0 = log0" by simp
    then have eq: "apply_batches log0 bs = take 50 (rev (concat bs) @ log0)"
      using apply_batches_take [of log0 bs] by simp
    have "length (take 50 (rev (concat bs) @ log0)) \<le> 50"
      unfolding length_take by (rule min.cobounded2)
    with eq show ?thesis by simp
  qed
  from hist len upd log show ?thesis by blast
qed

theorem C9_bounded_buffers_witness:
  "length [1::nat, 2] \<le> 50 \<and>
   apply_batches [1::nat, 2] [[3, 4], [5]] = [5, 4, 3, 1, 2] \<and>
   length (append_readings [] (replicate 25 (example_node (Num 40)))) = 20"
  using C9_bounded_buffers
    [of "replicate 25 (example_node (Num 40))" "[]::nat list" "[]" "[1::nat, 2]" "[[3, 4], [5]]"]
  by simp


end
